theory Spec2Isabelle
  imports Main
begin

section \<open>The tunnel adapter of ngrok-go (tunnel.go)\<close>

text \<open>
  The file tunnel.go wraps a tunnel handle of the package tunnel\_client as a
  net.Listener. The handle is an interface value: its methods are the fields of
  the record \<open>tunnel_client_Tunnel\<close> below, and the mutable object behind it is an
  explicit state of type \<open>'s\<close> that every call receives and returns. The struct
  \<open>tunnelImpl\<close> is never written after its construction, so the receiver pointer
  \<open>t\<close> is the record itself; all mutable state shared by the views of a tunnel is
  the client state. The methods keep their names, except \<open>URL\<close>, \<open>Metadata\<close>
  and \<open>Labels\<close>, which are also fields of the bind configuration and are written
  \<open>tunnel_URL\<close>, \<open>tunnel_Metadata\<close> and \<open>tunnel_Labels\<close>, and the method
  \<open>ProxyConn\<close> of connImpl, written \<open>connImpl_ProxyConn\<close>.
\<close>

subsection \<open>Errors\<close>

text \<open>
  A Go value of type error is an \<open>error option\<close>, nil being \<open>None\<close>.

  Modelled from the spec: the type errAcceptFailed is declared in another file
  of the repository; tunnel.go only builds \<open>errAcceptFailed{Inner: err}\<close>. The
  spec calls it the AcceptFailed kind, which "always carries the original error as
  its cause". \<open>Sentinel\<close> stands for an error value made by a collaborator;
  \<open>Canceled\<close> and \<open>DeadlineExceeded\<close> are the two errors of Go's context package.
\<close>

datatype error =
    Sentinel string
  | Canceled
  | DeadlineExceeded
  | errAcceptFailed (Inner: error)

fun is_AcceptFailed :: "error \<Rightarrow> bool" where
  "is_AcceptFailed (errAcceptFailed e) = True"
| "is_AcceptFailed e = False"

fun cause :: "error \<Rightarrow> error option" where
  "cause (errAcceptFailed e) = Some e"
| "cause e = None"

fun is_context_error :: "error \<Rightarrow> bool" where
  "is_context_error Canceled = True"
| "is_context_error DeadlineExceeded = True"
| "is_context_error e = False"

subsection \<open>Contexts\<close>

text \<open>
  The part of Go's context package that tunnel.go names: a context has an
  optional time bound (in nanoseconds, counted from its creation) and the value
  of its \<open>Err()\<close> method, nil until the context is cancelled.
\<close>

record Context =
  Deadline :: "nat option"
  Err :: "error option"

definition Second :: nat where
  "Second = 1000000000"

definition Background :: Context where
  "Background = \<lparr>Deadline = None, Err = None\<rparr>"

definition cancel :: "Context \<Rightarrow> Context" where
  "cancel c = (if Err c = None then c\<lparr>Err := Some Canceled\<rparr> else c)"

definition WithTimeout :: "Context \<Rightarrow> nat \<Rightarrow> Context \<times> (Context \<Rightarrow> Context)" where
  "WithTimeout parent d =
     (parent\<lparr>Deadline := Some (case Deadline parent of None \<Rightarrow> d | Some p \<Rightarrow> min p d)\<rparr>,
      cancel)"

subsection \<open>The tunnel client\<close>

text \<open>
  A raw stream (net.Conn), an address (net.Addr) and a session are references
  owned by the collaborators; they are opaque here.
\<close>

type_synonym net_Conn = nat
type_synonym net_Addr = string
type_synonym Session = nat

text \<open>
  Modelled from the spec: the struct tunnel\_client.ProxyConn is declared
  outside tunnel.go, which reads its field \<open>Conn\<close> only. The spec describes it as
  the raw duplex stream plus the proxy envelope, opaque to this code.
\<close>

record ProxyConn =
  Header :: string
  Conn :: net_Conn

text \<open>
  Modelled from the spec: the result type of \<open>RemoteBindConfig()\<close> is declared
  outside tunnel.go, which reads the four fields below. The spec lists them as
  \<open>{URL, ConfigProto, Metadata, Labels}\<close>; \<open>Labels\<close> is a Go map from string to
  string.
\<close>

record RemoteBindConfig =
  ConfigProto :: string
  URL :: string
  Metadata :: string
  Labels :: "string \<rightharpoonup> string"

text \<open>
  The interface tunnel\_client.Tunnel, as tunnel.go uses it. \<open>Accept\<close> and
  \<open>Close\<close> block, so their result is an option: \<open>None\<close> is a call that never
  returns. \<open>Accept\<close> returns a pointer to a ProxyConn (nil is \<open>None\<close>) and an
  error. The other four methods read the state.
\<close>

record 's tunnel_client_Tunnel =
  client_Accept :: "'s \<Rightarrow> ((ProxyConn option \<times> error option) \<times> 's) option"
  client_Close :: "'s \<Rightarrow> (error option \<times> 's) option"
  client_Addr :: "'s \<Rightarrow> net_Addr"
  client_ID :: "'s \<Rightarrow> string"
  client_ForwardsTo :: "'s \<Rightarrow> string"
  client_RemoteBindConfig :: "'s \<Rightarrow> RemoteBindConfig"

subsection \<open>tunnelImpl and connImpl\<close>

record 's tunnelImpl =
  Sess :: Session
  Tunnel :: "'s tunnel_client_Tunnel"

text \<open>
  connImpl embeds a net.Conn and keeps the pointer to the ProxyConn it came from.
\<close>

record connImpl =
  Conn :: net_Conn
  Proxy :: "ProxyConn option"

text \<open>
  A call that returns either returns a value or panics: \<open>conn.Conn\<close> on a nil
  \<open>conn\<close> is a nil pointer dereference.
\<close>

datatype 'a exit = Panicked | Returned 'a

definition Accept ::
  "'s tunnelImpl \<Rightarrow> 's \<Rightarrow> (((connImpl option \<times> error option) \<times> 's) exit) option" where
  "Accept t s =
     (case client_Accept (Tunnel t) s of
        None \<Rightarrow> None
      | Some ((conn, err), s') \<Rightarrow>
          (case err of
             Some e \<Rightarrow> Some (Returned ((None, Some (errAcceptFailed e)), s'))
           | None \<Rightarrow>
               (case conn of
                  None \<Rightarrow> Some Panicked
                | Some pc \<Rightarrow>
                    Some (Returned
                      ((Some \<lparr>Conn = ProxyConn.Conn pc, Proxy = conn\<rparr>, None), s')))))"

definition CloseWithContext ::
  "'s tunnelImpl \<Rightarrow> Context \<Rightarrow> 's \<Rightarrow> (error option \<times> 's) option" where
  "CloseWithContext t ctx s = client_Close (Tunnel t) s"

text \<open>
  \<open>Close\<close> builds the context, defers \<open>cancel\<close> and returns what
  \<open>CloseWithContext\<close> returns; the deferred \<open>cancel\<close> acts on the local context
  only, after the result is fixed.
\<close>

definition Close :: "'s tunnelImpl \<Rightarrow> 's \<Rightarrow> (error option \<times> 's) option" where
  "Close t s =
     (let (ctx, cancel') = WithTimeout Background (Second * 5);
          r = CloseWithContext t ctx s;
          ctx' = cancel' ctx
      in r)"

definition Addr :: "'s tunnelImpl \<Rightarrow> 's \<Rightarrow> net_Addr" where
  "Addr t s = client_Addr (Tunnel t) s"

definition tunnel_URL :: "'s tunnelImpl \<Rightarrow> 's \<Rightarrow> string" where
  "tunnel_URL t s = URL (client_RemoteBindConfig (Tunnel t) s)"

definition Proto :: "'s tunnelImpl \<Rightarrow> 's \<Rightarrow> string" where
  "Proto t s = ConfigProto (client_RemoteBindConfig (Tunnel t) s)"

definition ForwardsTo :: "'s tunnelImpl \<Rightarrow> 's \<Rightarrow> string" where
  "ForwardsTo t s = client_ForwardsTo (Tunnel t) s"

definition tunnel_Metadata :: "'s tunnelImpl \<Rightarrow> 's \<Rightarrow> string" where
  "tunnel_Metadata t s = Metadata (client_RemoteBindConfig (Tunnel t) s)"

definition ID :: "'s tunnelImpl \<Rightarrow> 's \<Rightarrow> string" where
  "ID t s = client_ID (Tunnel t) s"

definition tunnel_Labels :: "'s tunnelImpl \<Rightarrow> 's \<Rightarrow> string \<rightharpoonup> string" where
  "tunnel_Labels t s = Labels (client_RemoteBindConfig (Tunnel t) s)"

definition AsHTTP :: "'s tunnelImpl \<Rightarrow> 's tunnelImpl" where
  "AsHTTP t = t"

definition Session :: "'s tunnelImpl \<Rightarrow> Session" where
  "Session t = Sess t"

definition connImpl_ProxyConn :: "connImpl \<Rightarrow> ProxyConn option" where
  "connImpl_ProxyConn c = Proxy c"

subsection \<open>Serving HTTP\<close>

text \<open>
  The value of type http.Server that \<open>Serve\<close> builds: the two fields it sets.
  \<open>BaseContext\<close> receives the listener.
\<close>

record ('l, 'h) http_Server =
  Handler :: 'h
  BaseContext :: "'l \<Rightarrow> Context"

text \<open>
  Modelled from the spec: the method Serve of Go's net/http Server is not part of
  the sources. The spec describes it as a loop that accepts connections through
  the listener's Accept, dispatches each of them to the handler, under the base
  context, and returns the terminal error of the loop, the first error Accept
  returns. The connections dispatched so far are kept in order, each with the
  handler and the base context it was given. The loop has no bound: a listener
  that never fails keeps it running, and the result is \<open>None\<close>.
\<close>

partial_function (option) http_Server_Serve_loop ::
  "('l \<Rightarrow> 's \<Rightarrow> (((connImpl option \<times> error option) \<times> 's) exit) option)
   \<Rightarrow> 'l \<Rightarrow> 'h \<Rightarrow> Context \<Rightarrow> ('h \<times> Context \<times> connImpl) list \<Rightarrow> 's
   \<Rightarrow> ((error \<times> ('h \<times> Context \<times> connImpl) list \<times> 's) exit) option"
where
  "http_Server_Serve_loop accept l h ctx served s =
     (case accept l s of
        None \<Rightarrow> None
      | Some Panicked \<Rightarrow> Some Panicked
      | Some (Returned ((rw, err), s')) \<Rightarrow>
          (case err of
             Some e \<Rightarrow> Some (Returned (e, served, s'))
           | None \<Rightarrow>
               (case rw of
                  None \<Rightarrow> Some Panicked
                | Some c \<Rightarrow>
                    http_Server_Serve_loop accept l h ctx (served @ [(h, ctx, c)]) s')))"

definition http_Server_Serve ::
  "('l, 'h) http_Server
   \<Rightarrow> ('l \<Rightarrow> 's \<Rightarrow> (((connImpl option \<times> error option) \<times> 's) exit) option)
   \<Rightarrow> 'l \<Rightarrow> 's
   \<Rightarrow> ((error \<times> ('h \<times> Context \<times> connImpl) list \<times> 's) exit) option" where
  "http_Server_Serve srv accept l s =
     http_Server_Serve_loop accept l (Handler srv) (BaseContext srv l) [] s"

text \<open>
  \<open>Serve\<close> passes the tunnel itself as the listener, so the loop accepts through
  \<open>Accept\<close> above, and returns what the server's Serve returns.
\<close>

definition Serve ::
  "'s tunnelImpl \<Rightarrow> Context \<Rightarrow> 'h \<Rightarrow> 's
   \<Rightarrow> ((error \<times> ('h \<times> Context \<times> connImpl) list \<times> 's) exit) option" where
  "Serve t ctx h s =
     (let srv = \<lparr>Handler = h, BaseContext = (\<lambda>l. ctx)\<rparr>
      in http_Server_Serve srv Accept t s)"

subsection \<open>Runs of calls\<close>

text \<open>
  The outcomes of \<open>n\<close> successive calls of \<open>Accept\<close>, each on the state the one
  before left. A call that panics or never returns is the last one.
\<close>

fun Accept_results ::
  "'s tunnelImpl \<Rightarrow> nat \<Rightarrow> 's \<Rightarrow> ((connImpl option \<times> error option) exit option) list" where
  "Accept_results t 0 s = []"
| "Accept_results t (Suc n) s =
     (case Accept t s of
        None \<Rightarrow> [None]
      | Some Panicked \<Rightarrow> [Some Panicked]
      | Some (Returned (r, s')) \<Rightarrow> Some (Returned r) # Accept_results t n s')"

text \<open>
  A client that, from state \<open>s\<close>, hands out the connections \<open>pcs\<close> in this order
  and then fails with the error \<open>e\<close>, ending in state \<open>s'\<close>.
\<close>

fun accepts_then_fails ::
  "'s tunnel_client_Tunnel \<Rightarrow> 's \<Rightarrow> ProxyConn list \<Rightarrow> error \<Rightarrow> 's \<Rightarrow> bool" where
  "accepts_then_fails cl s [] e s' =
     (case client_Accept cl s of
        Some ((conn, Some e1), s1) \<Rightarrow> e1 = e \<and> s1 = s'
      | _ \<Rightarrow> False)"
| "accepts_then_fails cl s (pc # pcs) e s' =
     (case client_Accept cl s of
        Some ((Some pc1, None), s1) \<Rightarrow> pc1 = pc \<and> accepts_then_fails cl s1 pcs e s'
      | _ \<Rightarrow> False)"

text \<open>
  The contract of a client that hands out no connection once it is closed:
  \<open>closed\<close> holds after every successful Close, and in a closed state Accept
  returns an error and leaves the client closed.
\<close>

definition rejects_after_close :: "'s tunnel_client_Tunnel \<Rightarrow> ('s \<Rightarrow> bool) \<Rightarrow> bool" where
  "rejects_after_close cl closed \<longleftrightarrow>
     (\<forall>s s'. client_Close cl s = Some (None, s') \<longrightarrow> closed s') \<and>
     (\<forall>s. closed s \<longrightarrow>
        (\<exists>conn e s'. client_Accept cl s = Some ((conn, Some e), s') \<and> closed s'))"

subsection \<open>Example clients\<close>

text \<open>A client that fails every Accept and every Close; its state counts the calls of Accept.\<close>

definition failing_client :: "nat tunnel_client_Tunnel" where
  "failing_client =
     \<lparr>client_Accept = (\<lambda>s. Some ((None, Some (Sentinel ''session closed'')), Suc s)),
      client_Close = (\<lambda>s. Some (Some (Sentinel ''close failed''), s)),
      client_Addr = (\<lambda>s. ''local''),
      client_ID = (\<lambda>s. ''tn_1''),
      client_ForwardsTo = (\<lambda>s. ''localhost:80''),
      client_RemoteBindConfig =
        (\<lambda>s. \<lparr>ConfigProto = ''https'', URL = ''https://a.example'', Metadata = [],
              Labels = Map.empty\<rparr>)\<rparr>"

definition failing_tunnel :: "nat tunnelImpl" where
  "failing_tunnel = \<lparr>Sess = 7, Tunnel = failing_client\<rparr>"

text \<open>A client whose Accept and Close never return.\<close>

definition stuck_client :: "nat tunnel_client_Tunnel" where
  "stuck_client =
     \<lparr>client_Accept = (\<lambda>s. None),
      client_Close = (\<lambda>s. None),
      client_Addr = (\<lambda>s. ''local''),
      client_ID = (\<lambda>s. ''tn_2''),
      client_ForwardsTo = (\<lambda>s. ''localhost:80''),
      client_RemoteBindConfig =
        (\<lambda>s. \<lparr>ConfigProto = ''tcp'', URL = ''tcp://b.example:1'', Metadata = [],
              Labels = Map.empty\<rparr>)\<rparr>"

definition stuck_tunnel :: "nat tunnelImpl" where
  "stuck_tunnel = \<lparr>Sess = 7, Tunnel = stuck_client\<rparr>"

definition cancelled_context :: Context where
  "cancelled_context = cancel Background"

text \<open>
  A client that keeps everything it reports in its state: a queue of
  connections waiting to be accepted, a closed flag, and the values its readers
  return. Accept hands out the queue in order and then fails.
\<close>

record queue_state =
  qs_closed :: bool
  qs_queue :: "ProxyConn list"
  qs_id :: string
  qs_forwardsTo :: string
  qs_config :: RemoteBindConfig

definition queue_Accept ::
  "queue_state \<Rightarrow> ((ProxyConn option \<times> error option) \<times> queue_state) option" where
  "queue_Accept s =
     (case qs_queue s of
        [] \<Rightarrow> Some ((None, Some (Sentinel ''tunnel closed'')), s)
      | pc # q \<Rightarrow> Some ((Some pc, None), s\<lparr>qs_queue := q\<rparr>))"

text \<open>Closing sets the flag; this client still hands out what is queued.\<close>

definition draining_client :: "queue_state tunnel_client_Tunnel" where
  "draining_client =
     \<lparr>client_Accept = queue_Accept,
      client_Close = (\<lambda>s. Some (None, s\<lparr>qs_closed := True\<rparr>)),
      client_Addr = (\<lambda>s. ''local''),
      client_ID = qs_id,
      client_ForwardsTo = qs_forwardsTo,
      client_RemoteBindConfig = qs_config\<rparr>"

definition draining_tunnel :: "queue_state tunnelImpl" where
  "draining_tunnel = \<lparr>Sess = 7, Tunnel = draining_client\<rparr>"

text \<open>The same client, except that Accept fails once the flag is set.\<close>

definition strict_client :: "queue_state tunnel_client_Tunnel" where
  "strict_client =
     draining_client
       \<lparr>client_Accept :=
          (\<lambda>s. if qs_closed s then Some ((None, Some (Sentinel ''tunnel closed'')), s)
                else queue_Accept s)\<rparr>"

definition strict_tunnel :: "queue_state tunnelImpl" where
  "strict_tunnel = \<lparr>Sess = 7, Tunnel = strict_client\<rparr>"

definition conn1 :: ProxyConn where
  "conn1 = \<lparr>Header = ''client 203.0.113.9'', Conn = 41\<rparr>"

definition url_config :: RemoteBindConfig where
  "url_config =
     \<lparr>ConfigProto = ''https'', URL = ''https://a.example'', Metadata = ''m1'',
      Labels = Map.empty\<rparr>"

definition label_config :: RemoteBindConfig where
  "label_config =
     \<lparr>ConfigProto = [], URL = [], Metadata = ''m2'', Labels = [''env'' \<mapsto> ''prod'']\<rparr>"

definition mixed_config :: RemoteBindConfig where
  "mixed_config =
     \<lparr>ConfigProto = ''https'', URL = ''https://a.example'', Metadata = ''m3'',
      Labels = [''env'' \<mapsto> ''prod'']\<rparr>"

definition open_state :: queue_state where
  "open_state =
     \<lparr>qs_closed = False, qs_queue = [conn1], qs_id = ''tn_3'',
      qs_forwardsTo = ''localhost:80'', qs_config = url_config\<rparr>"

definition closed_state :: queue_state where
  "closed_state = open_state\<lparr>qs_closed := True\<rparr>"

definition renamed_state :: queue_state where
  "renamed_state = open_state\<lparr>qs_id := ''tn_4'', qs_forwardsTo := ''localhost:8080''\<rparr>"

definition mutated_state :: queue_state where
  "mutated_state = open_state\<lparr>qs_config := label_config\<rparr>"

definition mixed_state :: queue_state where
  "mixed_state = open_state\<lparr>qs_config := mixed_config\<rparr>"

section \<open>Auxiliary facts\<close>

text \<open>
  Once a client that rejects Accept after Close is closed, every Accept of the
  adapter returns, with a nil connection and a wrapped error, however many
  calls follow.
\<close>

lemma Accept_results_closed:
  assumes "rejects_after_close (Tunnel t) closed" and "closed s"
  shows "length (Accept_results t n s) = n
         \<and> (\<forall>r \<in> set (Accept_results t n s).
               \<exists>e. r = Some (Returned (None, Some (errAcceptFailed e))))"
  using assms(2)
proof (induction n arbitrary: s)
  case 0
  then show ?case by simp
next
  case (Suc n)
  from assms(1) Suc.prems obtain conn e s'
    where a: "client_Accept (Tunnel t) s = Some ((conn, Some e), s')" and c: "closed s'"
    unfolding rejects_after_close_def by blast
  from a have "Accept t s = Some (Returned ((None, Some (errAcceptFailed e)), s'))"
    by (simp add: Accept_def)
  with Suc.IH [OF c] show ?case by simp
qed

text \<open>
  The serving loop over the adapter, started with any list of connections
  already dispatched: it dispatches what the client hands out, wrapped, and
  returns the client's error, wrapped.
\<close>

lemma Serve_loop_accepts_then_fails:
  assumes "accepts_then_fails (Tunnel t) s pcs e s'"
  shows "http_Server_Serve_loop Accept t h ctx served s
           = Some (Returned (errAcceptFailed e,
                     served @ map (\<lambda>pc. (h, ctx, \<lparr>Conn = ProxyConn.Conn pc, Proxy = Some pc\<rparr>)) pcs,
                     s'))"
  using assms
proof (induction pcs arbitrary: s served)
  case Nil
  then obtain conn where "client_Accept (Tunnel t) s = Some ((conn, Some e), s')"
    by (auto split: option.splits prod.splits)
  then have "Accept t s = Some (Returned ((None, Some (errAcceptFailed e)), s'))"
    by (simp add: Accept_def)
  then show ?case
    by (subst http_Server_Serve_loop.simps) simp
next
  case (Cons pc pcs)
  then obtain s1 where a: "client_Accept (Tunnel t) s = Some ((Some pc, None), s1)"
    and r: "accepts_then_fails (Tunnel t) s1 pcs e s'"
    by (auto split: option.splits prod.splits)
  from a have "Accept t s
      = Some (Returned ((Some \<lparr>Conn = ProxyConn.Conn pc, Proxy = Some pc\<rparr>, None), s1))"
    by (simp add: Accept_def)
  then have "http_Server_Serve_loop Accept t h ctx served s
      = http_Server_Serve_loop Accept t h ctx
          (served @ [(h, ctx, \<lparr>Conn = ProxyConn.Conn pc, Proxy = Some pc\<rparr>)]) s1"
    by (subst http_Server_Serve_loop.simps) simp
  with Cons.IH [OF r] show ?case by simp
qed

section \<open>Properties\<close>

subsection \<open>Accept wraps the client's error\<close>

text \<open>
  C1. Whenever the client's Accept returns an error \<open>e\<close> (whatever connection
  comes with it), the adapter's Accept returns a nil connection and an error of
  the AcceptFailed kind whose cause is \<open>e\<close>.
\<close>

theorem Accept_error_wrapped:
  assumes "client_Accept (Tunnel t) s = Some ((conn, Some e), s')"
  shows "Accept t s = Some (Returned ((None, Some (errAcceptFailed e)), s'))
           \<and> is_AcceptFailed (errAcceptFailed e)
           \<and> cause (errAcceptFailed e) = Some e"
  using assms by (simp add: Accept_def)

theorem Accept_error_wrapped_witness:
  "client_Accept (Tunnel failing_tunnel) 0
     = Some ((None, Some (Sentinel ''session closed'')), 1)
   \<and> Accept failing_tunnel 0
     = Some (Returned ((None, Some (errAcceptFailed (Sentinel ''session closed''))), 1))"
proof -
  have h: "client_Accept (Tunnel failing_tunnel) 0
             = Some ((None, Some (Sentinel ''session closed'')), 1)"
    by (simp add: failing_tunnel_def failing_client_def)
  from Accept_error_wrapped [OF h] h show ?thesis by simp
qed

subsection \<open>Closing\<close>

text \<open>
  C2. In every state of the client, \<open>Close\<close> has the result of
  \<open>CloseWithContext\<close> called with a context bounded to five seconds, such as
  the one \<open>WithTimeout\<close> makes from the background context: the same error and
  the same client state, or no return in both.
\<close>

theorem Close_is_CloseWithContext_5s:
  assumes "Deadline ctx = Some (5 * Second)"
  shows "Close t s = CloseWithContext t ctx s"
  by (simp add: Close_def CloseWithContext_def WithTimeout_def)

theorem Close_is_CloseWithContext_5s_witness:
  "Deadline (fst (WithTimeout Background (Second * 5))) = Some (5 * Second)
   \<and> Close failing_tunnel 3
       = CloseWithContext failing_tunnel (fst (WithTimeout Background (Second * 5))) 3
   \<and> Close failing_tunnel 3 = Some (Some (Sentinel ''close failed''), 3)"
proof -
  have h: "Deadline (fst (WithTimeout Background (Second * 5))) = Some (5 * Second)"
    by (simp add: WithTimeout_def Background_def)
  have c: "Close failing_tunnel 3 = Some (Some (Sentinel ''close failed''), 3)"
    by (simp add: Close_def CloseWithContext_def WithTimeout_def failing_tunnel_def
        failing_client_def)
  from Close_is_CloseWithContext_5s [OF h, of failing_tunnel 3] h c show ?thesis
    by simp
qed

text \<open>
  C3, as the code has it. On a cancelled context \<open>CloseWithContext\<close> follows
  the client's Close: it does not return while the client's Close does not, and
  when that returns, it returns the same error (or nil) and the same state,
  never a cancellation error of its own.
\<close>

theorem CloseWithContext_cancelled_follows_client:
  assumes "Err ctx = Some ce"
  shows "case client_Close (Tunnel t) s of
           None \<Rightarrow> CloseWithContext t ctx s = None
         | Some (err, s') \<Rightarrow> CloseWithContext t ctx s = Some (err, s')"
  by (simp add: CloseWithContext_def split: option.split)

theorem CloseWithContext_cancelled_follows_client_witness:
  "Err cancelled_context = Some Canceled
   \<and> CloseWithContext failing_tunnel cancelled_context 3
       = Some (Some (Sentinel ''close failed''), 3)
   \<and> \<not> is_context_error (Sentinel ''close failed'')"
proof -
  have h: "Err cancelled_context = Some Canceled"
    by (simp add: cancelled_context_def cancel_def Background_def)
  from CloseWithContext_cancelled_follows_client [OF h, of failing_tunnel 3] h
  show ?thesis
    by (simp add: failing_tunnel_def failing_client_def)
qed

text \<open>
  C3 as stated fails: over a client whose Close never returns,
  \<open>CloseWithContext\<close> with a cancelled context never returns either.
\<close>

theorem CloseWithContext_cancelled_counterexample:
  "Err cancelled_context = Some Canceled
   \<and> CloseWithContext stuck_tunnel cancelled_context 0 = None"
  by (simp add: cancelled_context_def cancel_def Background_def CloseWithContext_def
      stuck_tunnel_def stuck_client_def)

text \<open>
  C4. The context has no influence on \<open>CloseWithContext\<close>: for any two contexts
  and the same client state the results are equal, and they are the result of
  the client's Close.
\<close>

theorem CloseWithContext_ignores_context:
  "CloseWithContext t ctx1 s = CloseWithContext t ctx2 s
   \<and> CloseWithContext t ctx1 s = client_Close (Tunnel t) s"
  by (simp add: CloseWithContext_def)

subsection \<open>The HTTP view\<close>

text \<open>
  C5. \<open>AsHTTP\<close> returns the tunnel it was called on: the view has the same
  session, and every accessor and every operation of the view gives, on the same
  client state, what the tunnel's own gives.
\<close>

theorem AsHTTP_same_tunnel:
  "AsHTTP t = t
   \<and> Session (AsHTTP t) = Session t
   \<and> Addr (AsHTTP t) s = Addr t s
   \<and> ID (AsHTTP t) s = ID t s
   \<and> ForwardsTo (AsHTTP t) s = ForwardsTo t s
   \<and> tunnel_Metadata (AsHTTP t) s = tunnel_Metadata t s
   \<and> Proto (AsHTTP t) s = Proto t s
   \<and> tunnel_URL (AsHTTP t) s = tunnel_URL t s
   \<and> tunnel_Labels (AsHTTP t) s = tunnel_Labels t s
   \<and> Accept (AsHTTP t) s = Accept t s
   \<and> Close (AsHTTP t) s = Close t s
   \<and> CloseWithContext (AsHTTP t) ctx s = CloseWithContext t ctx s"
  by (simp add: AsHTTP_def)

subsection \<open>Descriptive accessors\<close>

text \<open>
  C6, as the code has it. Called in a client state \<open>s'\<close> (the state after any
  mutation), \<open>Metadata\<close>, \<open>Proto\<close>, \<open>URL\<close> and \<open>Labels\<close> return the fields of the
  bind configuration the client reports in \<open>s'\<close>; \<open>ID\<close> and \<open>ForwardsTo\<close> return
  what the client's own \<open>ID()\<close> and \<open>ForwardsTo()\<close> report in \<open>s'\<close>. Nothing is
  kept from an earlier call.
\<close>

theorem accessors_read_client_at_call_time:
  assumes "client_RemoteBindConfig (Tunnel t) s' = cfg"
  shows "tunnel_Metadata t s' = Metadata cfg
         \<and> Proto t s' = ConfigProto cfg
         \<and> tunnel_URL t s' = URL cfg
         \<and> tunnel_Labels t s' = Labels cfg
         \<and> ID t s' = client_ID (Tunnel t) s'
         \<and> ForwardsTo t s' = client_ForwardsTo (Tunnel t) s'"
  using assms
  by (simp add: tunnel_Metadata_def Proto_def tunnel_URL_def tunnel_Labels_def ID_def
      ForwardsTo_def)

theorem accessors_read_client_at_call_time_witness:
  "client_RemoteBindConfig (Tunnel draining_tunnel) mutated_state = label_config
   \<and> tunnel_URL draining_tunnel open_state = ''https://a.example''
   \<and> tunnel_URL draining_tunnel mutated_state = []
   \<and> tunnel_Metadata draining_tunnel open_state = ''m1''
   \<and> tunnel_Metadata draining_tunnel mutated_state = ''m2''
   \<and> Proto draining_tunnel mutated_state = []
   \<and> tunnel_Labels draining_tunnel mutated_state = [''env'' \<mapsto> ''prod'']
   \<and> ID draining_tunnel mutated_state = ''tn_3''
   \<and> ForwardsTo draining_tunnel mutated_state = ''localhost:80''"
proof -
  have h: "client_RemoteBindConfig (Tunnel draining_tunnel) mutated_state = label_config"
    by (simp add: draining_tunnel_def draining_client_def mutated_state_def)
  have o: "tunnel_URL draining_tunnel open_state = ''https://a.example''
           \<and> tunnel_Metadata draining_tunnel open_state = ''m1''"
    by (simp add: tunnel_URL_def tunnel_Metadata_def draining_tunnel_def draining_client_def
        open_state_def url_config_def)
  from accessors_read_client_at_call_time [OF h] h o show ?thesis
    by (simp add: label_config_def draining_tunnel_def draining_client_def
        mutated_state_def open_state_def)
qed

text \<open>
  C6 as stated fails for \<open>ID\<close> and \<open>ForwardsTo\<close>: in two client states with the
  same bind configuration they return different values, so what they return is
  not a value held in the bind configuration.
\<close>

theorem ID_not_from_bind_config_counterexample:
  "client_RemoteBindConfig (Tunnel draining_tunnel) open_state
     = client_RemoteBindConfig (Tunnel draining_tunnel) renamed_state
   \<and> ID draining_tunnel open_state \<noteq> ID draining_tunnel renamed_state
   \<and> ForwardsTo draining_tunnel open_state \<noteq> ForwardsTo draining_tunnel renamed_state"
  by (simp add: draining_tunnel_def draining_client_def open_state_def renamed_state_def
      ID_def ForwardsTo_def)

text \<open>
  C7, as the code has it. The accessors return the fields of the client's bind
  configuration unchanged, so they are mutually exclusive whenever that
  configuration is: if non-empty \<open>Labels\<close> come with empty \<open>ConfigProto\<close> and
  \<open>URL\<close> in the configuration, then non-empty \<open>Labels()\<close> come with empty
  \<open>Proto()\<close> and \<open>URL()\<close>, and a non-empty \<open>URL()\<close> with empty \<open>Labels()\<close>.
\<close>

theorem exclusive_config_exclusive_accessors:
  assumes "Labels (client_RemoteBindConfig (Tunnel t) s) \<noteq> Map.empty \<longrightarrow>
             ConfigProto (client_RemoteBindConfig (Tunnel t) s) = []
             \<and> URL (client_RemoteBindConfig (Tunnel t) s) = []"
  shows "(tunnel_Labels t s \<noteq> Map.empty \<longrightarrow> Proto t s = [] \<and> tunnel_URL t s = [])
         \<and> (tunnel_URL t s \<noteq> [] \<longrightarrow> tunnel_Labels t s = Map.empty)"
  using assms by (auto simp: tunnel_Labels_def Proto_def tunnel_URL_def)

theorem exclusive_config_exclusive_accessors_witness:
  "tunnel_Labels draining_tunnel mutated_state \<noteq> Map.empty
   \<and> Proto draining_tunnel mutated_state = []
   \<and> tunnel_URL draining_tunnel mutated_state = []
   \<and> tunnel_URL draining_tunnel open_state \<noteq> []
   \<and> tunnel_Labels draining_tunnel open_state = Map.empty"
proof -
  have c1: "client_RemoteBindConfig (Tunnel draining_tunnel) mutated_state = label_config"
    by (simp add: draining_tunnel_def draining_client_def mutated_state_def)
  have c2: "client_RemoteBindConfig (Tunnel draining_tunnel) open_state = url_config"
    by (simp add: draining_tunnel_def draining_client_def open_state_def)
  have h1: "Labels (client_RemoteBindConfig (Tunnel draining_tunnel) mutated_state) \<noteq> Map.empty \<longrightarrow>
             ConfigProto (client_RemoteBindConfig (Tunnel draining_tunnel) mutated_state) = []
             \<and> URL (client_RemoteBindConfig (Tunnel draining_tunnel) mutated_state) = []"
    by (simp add: c1 label_config_def)
  have h2: "Labels (client_RemoteBindConfig (Tunnel draining_tunnel) open_state) \<noteq> Map.empty \<longrightarrow>
             ConfigProto (client_RemoteBindConfig (Tunnel draining_tunnel) open_state) = []
             \<and> URL (client_RemoteBindConfig (Tunnel draining_tunnel) open_state) = []"
    by (simp add: c2 url_config_def)
  have l: "tunnel_Labels draining_tunnel mutated_state \<noteq> Map.empty"
    by (simp add: tunnel_Labels_def c1 label_config_def)
  have u: "tunnel_URL draining_tunnel open_state \<noteq> []"
    by (simp add: tunnel_URL_def c2 url_config_def)
  from exclusive_config_exclusive_accessors [OF h1]
    exclusive_config_exclusive_accessors [OF h2] l u
  show ?thesis by simp
qed

text \<open>
  C7 as stated fails: over a client whose bind configuration has both labels and
  a URL, \<open>Labels()\<close> is non-empty and so are \<open>URL()\<close> and \<open>Proto()\<close>.
\<close>

theorem labels_and_URL_both_set_counterexample:
  "tunnel_Labels draining_tunnel mixed_state \<noteq> Map.empty
   \<and> tunnel_URL draining_tunnel mixed_state \<noteq> []
   \<and> Proto draining_tunnel mixed_state \<noteq> []"
  by (simp add: tunnel_Labels_def tunnel_URL_def Proto_def draining_tunnel_def
      draining_client_def mixed_state_def mixed_config_def)

subsection \<open>Accept after Close\<close>

text \<open>
  C8, as the code has it. Over a client that rejects Accept once it is closed,
  after a \<open>Close\<close> or a \<open>CloseWithContext\<close> that returned nil, each of any number
  of successive calls of \<open>Accept\<close> returns a nil connection and an error of the
  AcceptFailed kind. The adapter keeps no closed flag of its own.
\<close>

theorem no_Accept_after_Close:
  assumes "rejects_after_close (Tunnel t) closed"
    and "Close t s = Some (None, s') \<or> CloseWithContext t ctx s = Some (None, s')"
  shows "length (Accept_results t n s') = n
         \<and> (\<forall>r \<in> set (Accept_results t n s').
               \<exists>e. r = Some (Returned (None, Some (errAcceptFailed e))))"
proof -
  from assms(2) have "client_Close (Tunnel t) s = Some (None, s')"
    by (auto simp: Close_def CloseWithContext_def WithTimeout_def)
  with assms(1) have "closed s'"
    unfolding rejects_after_close_def by blast
  with assms(1) show ?thesis by (rule Accept_results_closed)
qed

theorem no_Accept_after_Close_witness:
  "rejects_after_close (Tunnel strict_tunnel) qs_closed
   \<and> Close strict_tunnel open_state = Some (None, closed_state)
   \<and> Accept_results strict_tunnel 2 closed_state
       = [Some (Returned (None, Some (errAcceptFailed (Sentinel ''tunnel closed'')))),
          Some (Returned (None, Some (errAcceptFailed (Sentinel ''tunnel closed''))))]"
proof -
  have r: "rejects_after_close (Tunnel strict_tunnel) qs_closed"
    by (auto simp: rejects_after_close_def strict_tunnel_def strict_client_def
        draining_client_def)
  have c: "Close strict_tunnel open_state = Some (None, closed_state)"
    by (simp add: Close_def CloseWithContext_def WithTimeout_def strict_tunnel_def
        strict_client_def draining_client_def closed_state_def)
  have a: "Accept strict_tunnel closed_state
             = Some (Returned ((None, Some (errAcceptFailed (Sentinel ''tunnel closed''))),
                       closed_state))"
    by (simp add: Accept_def strict_tunnel_def strict_client_def draining_client_def
        closed_state_def)
  have n: "Accept_results strict_tunnel (Suc (Suc 0)) closed_state
       = [Some (Returned (None, Some (errAcceptFailed (Sentinel ''tunnel closed'')))),
          Some (Returned (None, Some (errAcceptFailed (Sentinel ''tunnel closed''))))]"
    by (simp add: a)
  from no_Accept_after_Close [OF r disjI1 [OF c], of 2] r c n show ?thesis
    by (simp add: numeral_2_eq_2)
qed

text \<open>
  C8 as stated fails: over a client that still hands out its queued connection
  after its Close returned nil, \<open>Close\<close> (and \<open>CloseWithContext\<close>) returns nil and
  the next \<open>Accept\<close> returns a live connection and a nil error.
\<close>

theorem Accept_after_Close_counterexample:
  "Close draining_tunnel open_state = Some (None, closed_state)
   \<and> CloseWithContext draining_tunnel Background open_state = Some (None, closed_state)
   \<and> Accept draining_tunnel closed_state
       = Some (Returned ((Some \<lparr>Conn = 41, Proxy = Some conn1\<rparr>, None),
                 closed_state\<lparr>qs_queue := []\<rparr>))"
  by (simp add: Close_def CloseWithContext_def WithTimeout_def Accept_def draining_tunnel_def
      draining_client_def queue_Accept_def open_state_def closed_state_def conn1_def)

subsection \<open>Serve\<close>

text \<open>
  C9. For every handler and context: if the client hands out the connections
  \<open>pcs\<close> and then fails with the error \<open>e\<close>, \<open>Serve\<close> dispatches exactly these
  connections, in order, each wrapped and with the caller's context, and returns
  the AcceptFailed error whose cause is \<open>e\<close>. With one connection in \<open>pcs\<close> this
  is the scenario of a client that accepts exactly once before its close error.
\<close>

theorem Serve_returns_Accept_error:
  assumes "accepts_then_fails (Tunnel t) s pcs e s'"
  shows "\<exists>s''. Serve t ctx h s
           = Some (Returned (errAcceptFailed e,
               map (\<lambda>pc. (h, ctx, \<lparr>Conn = ProxyConn.Conn pc, Proxy = Some pc\<rparr>)) pcs, s''))
         \<and> cause (errAcceptFailed e) = Some e"
  using Serve_loop_accepts_then_fails [OF assms, of h ctx "[]"]
  by (simp add: Serve_def http_Server_Serve_def)

theorem Serve_returns_Accept_error_witness:
  "accepts_then_fails (Tunnel draining_tunnel) open_state [conn1] (Sentinel ''tunnel closed'')
     (open_state\<lparr>qs_queue := []\<rparr>)
   \<and> Serve draining_tunnel Background (0::nat) open_state
       = Some (Returned (errAcceptFailed (Sentinel ''tunnel closed''),
                 [(0, Background, \<lparr>Conn = 41, Proxy = Some conn1\<rparr>)],
                 open_state\<lparr>qs_queue := []\<rparr>))
   \<and> cause (errAcceptFailed (Sentinel ''tunnel closed'')) = Some (Sentinel ''tunnel closed'')"
proof -
  have h: "accepts_then_fails (Tunnel draining_tunnel) open_state [conn1]
             (Sentinel ''tunnel closed'') (open_state\<lparr>qs_queue := []\<rparr>)"
    by (simp add: draining_tunnel_def draining_client_def queue_Accept_def open_state_def)
  from Serve_returns_Accept_error [OF h, of Background "0::nat"]
    Serve_loop_accepts_then_fails [OF h, of "0::nat" Background "[]"] h
  show ?thesis
    by (simp add: conn1_def Serve_def http_Server_Serve_def)
qed

subsection \<open>The accepted connection\<close>

text \<open>
  C10. Whenever \<open>Accept\<close> returns, the connection is non-nil exactly when the
  error is nil; and then the client's Accept returned a proxy connection \<open>pc\<close>
  with a nil error, the connection's stream is the stream of \<open>pc\<close>, and its
  \<open>ProxyConn()\<close> is \<open>pc\<close>, header included.
\<close>

theorem Accept_passes_connection_through:
  assumes "Accept t s = Some (Returned ((c, err), s'))"
  shows "((c \<noteq> None) = (err = None))
         \<and> (err = None \<longrightarrow>
              (\<exists>pc. client_Accept (Tunnel t) s = Some ((Some pc, None), s')
                 \<and> c = Some \<lparr>Conn = ProxyConn.Conn pc, Proxy = Some pc\<rparr>
                 \<and> connImpl.Conn (the c) = ProxyConn.Conn pc
                 \<and> connImpl_ProxyConn (the c) = Some pc))"
  using assms
  by (auto simp: Accept_def connImpl_ProxyConn_def split: option.splits)

theorem Accept_passes_connection_through_witness:
  "Accept draining_tunnel open_state
     = Some (Returned ((Some \<lparr>Conn = 41, Proxy = Some conn1\<rparr>, None),
               open_state\<lparr>qs_queue := []\<rparr>))
   \<and> client_Accept (Tunnel draining_tunnel) open_state
     = Some ((Some conn1, None), open_state\<lparr>qs_queue := []\<rparr>)
   \<and> connImpl_ProxyConn \<lparr>Conn = 41, Proxy = Some conn1\<rparr> = Some conn1
   \<and> ProxyConn.Conn conn1 = 41"
proof -
  have h: "Accept draining_tunnel open_state
     = Some (Returned ((Some \<lparr>Conn = 41, Proxy = Some conn1\<rparr>, None),
               open_state\<lparr>qs_queue := []\<rparr>))"
    by (simp add: Accept_def draining_tunnel_def draining_client_def queue_Accept_def
        open_state_def conn1_def)
  from Accept_passes_connection_through [OF h] h show ?thesis
    by (auto simp: connImpl_ProxyConn_def conn1_def)
qed

end
